theory Spec2Isabelle
  imports Complex_Main "HOL-Library.AList"
begin

section \<open>Python errors\<close>

text \<open>
  The exceptions that the modelled functions of the animator package can raise. An
  exception leaves every mutation made before it in place, so a stateful operation
  returns the state it reached together with the exception, if any.
\<close>

datatype error = ValueError | KeyError | IndexError | ZeroDivisionError
  | UnboundLocalError | ExecError string

section \<open>Entities (animator/entities/entity.py)\<close>

text \<open>
  numpy arrays of shape (3) and (3, 3) are triples of numbers and triples of rows. The
  numbers are real numbers here: the functions of this section copy and compose them,
  and no statement below depends on how a double rounds.
\<close>

type_synonym vec3 = "real \<times> real \<times> real"
type_synonym mat3 = "vec3 \<times> vec3 \<times> vec3"

definition vadd :: "vec3 \<Rightarrow> vec3 \<Rightarrow> vec3" where
  "vadd u v = (case u of (a, b, c) \<Rightarrow> case v of (x, y, z) \<Rightarrow> (a + x, b + y, c + z))"

definition vsub :: "vec3 \<Rightarrow> vec3 \<Rightarrow> vec3" where
  "vsub u v = (case u of (a, b, c) \<Rightarrow> case v of (x, y, z) \<Rightarrow> (a - x, b - y, c - z))"

definition dot :: "vec3 \<Rightarrow> vec3 \<Rightarrow> real" where
  "dot u v = (case u of (a, b, c) \<Rightarrow> case v of (x, y, z) \<Rightarrow> a * x + b * y + c * z)"

definition mat_vec :: "mat3 \<Rightarrow> vec3 \<Rightarrow> vec3" where
  "mat_vec m v = (case m of (r1, r2, r3) \<Rightarrow> (dot r1 v, dot r2 v, dot r3 v))"

definition col :: "mat3 \<Rightarrow> nat \<Rightarrow> vec3" where
  "col m j = (case m of ((a1, a2, a3), (b1, b2, b3), (c1, c2, c3)) \<Rightarrow>
     if j = 0 then (a1, b1, c1) else if j = 1 then (a2, b2, c2) else (a3, b3, c3))"

definition mat_mul :: "mat3 \<Rightarrow> mat3 \<Rightarrow> mat3" where
  "mat_mul m k = (case m of (r1, r2, r3) \<Rightarrow>
     ((dot r1 (col k 0), dot r1 (col k 1), dot r1 (col k 2)),
      (dot r2 (col k 0), dot r2 (col k 1), dot r2 (col k 2)),
      (dot r3 (col k 0), dot r3 (col k 1), dot r3 (col k 2))))"

definition identity3 :: mat3 where
  "identity3 = ((1, 0, 0), (0, 1, 0), (0, 0, 1))"

definition zero3 :: vec3 where
  "zero3 = (0, 0, 0)"

text \<open>
  Entity objects are mutable and refer to each other (\<open>attributes["parent"]\<close>,
  \<open>attributes["components"]\<close>), so they live in a heap indexed by references. The
  record holds the entries of \<open>self.attributes\<close> that the functions below read or
  write.
\<close>

type_synonym ref = nat

record entity =
  pos :: vec3
  ori :: mat3
  parent :: "ref option"
  components :: "ref list"

type_synonym heap = "ref \<Rightarrow> entity"

text \<open>
  \<open>Entity.gpos(self, local_pos=None)\<close>. The recursion climbs the parent chain; on a
  chain that loops it never reaches \<open>parent == None\<close>, which is the value \<open>None\<close> of
  the model.
\<close>

partial_function (option) gpos :: "heap \<Rightarrow> ref \<Rightarrow> vec3 option \<Rightarrow> vec3 option" where
  "gpos h self local_pos =
     (case parent (h self) of
        None \<Rightarrow> Some (case local_pos of None \<Rightarrow> pos (h self) | Some v \<Rightarrow> v)
      | Some p \<Rightarrow>
          gpos h p (Some (vadd (pos (h p))
            (mat_vec (ori (h p)) (case local_pos of None \<Rightarrow> pos (h self) | Some v \<Rightarrow> v)))))"

text \<open>\<open>Entity.gori(self)\<close>: \<open>self.ori() @ parent.gori()\<close>, the identity at a root.\<close>

partial_function (option) gori :: "heap \<Rightarrow> ref \<Rightarrow> mat3 option" where
  "gori h self =
     (case parent (h self) of
        None \<Rightarrow> Some identity3
      | Some p \<Rightarrow> Option.bind (gori h p) (\<lambda>g. Some (mat_mul (ori (h self)) g)))"

subsection \<open>Attaching components\<close>

text \<open>
  The arguments of \<open>add_components(self, *args)\<close> are arbitrary Python values. The
  function tells three kinds apart: an \<open>Entity\<close>, an iterable (a list or tuple of
  further arguments), and anything else. Strings, which are iterables of strings, are
  not part of this model.
\<close>

datatype pyval = PEntity ref | PSeq "pyval list" | POther

text \<open>
  The two statements of the \<open>else\<close> branch for an Entity argument:
  \<open>self.attributes["components"].append(arg)\<close>, then \<open>arg.attributes["parent"] = self\<close>.
\<close>

definition attach :: "ref \<Rightarrow> ref \<Rightarrow> heap \<Rightarrow> heap" where
  "attach self arg h =
     (let h1 = h(self := (h self)\<lparr>components := components (h self) @ [arg]\<rparr>)
      in h1(arg := (h1 arg)\<lparr>parent := Some self\<rparr>))"

text \<open>
  \<open>add_components\<close> is the loop over \<open>args\<close>; \<open>add_arg\<close> is its body for one
  argument. For an iterable the source calls \<open>self.add_components(sub_arg)\<close> on each
  element in turn, which is the loop over the elements.
\<close>

fun add_components :: "ref \<Rightarrow> pyval list \<Rightarrow> heap \<Rightarrow> heap \<times> error option"
  and add_arg :: "ref \<Rightarrow> pyval \<Rightarrow> heap \<Rightarrow> heap \<times> error option" where
  "add_components self [] h = (h, None)"
| "add_components self (a # as) h =
     (case add_arg self a h of
        (h', Some e) \<Rightarrow> (h', Some e)
      | (h', None) \<Rightarrow> add_components self as h')"
| "add_arg self (PSeq xs) h = add_components self xs h"
| "add_arg self POther h = (h, Some ValueError)"
| "add_arg self (PEntity r) h = (attach self r h, None)"

text \<open>
  The arguments in the order the loops visit them: \<open>Some r\<close> for an Entity, \<open>None\<close>
  for a value that is neither an Entity nor an iterable.
\<close>

fun flatten_args :: "pyval list \<Rightarrow> ref option list"
  and flatten_arg :: "pyval \<Rightarrow> ref option list" where
  "flatten_args [] = []"
| "flatten_args (a # as) = flatten_arg a @ flatten_args as"
| "flatten_arg (PSeq xs) = flatten_args xs"
| "flatten_arg POther = [None]"
| "flatten_arg (PEntity r) = [Some r]"

text \<open>Attaching a list of entities one after the other.\<close>

fun attach_all :: "ref \<Rightarrow> ref list \<Rightarrow> heap \<Rightarrow> heap" where
  "attach_all self [] h = h"
| "attach_all self (r # rs) h = attach_all self rs (attach self r h)"

text \<open>The entities that come before the first non-entity.\<close>

fun nodes_before :: "ref option list \<Rightarrow> ref list" where
  "nodes_before [] = []"
| "nodes_before (None # xs) = []"
| "nodes_before (Some r # xs) = r # nodes_before xs"

text \<open>A heap of fresh entities, as \<open>Entity()\<close> builds them, for concrete runs.\<close>

definition fresh :: entity where
  "fresh = \<lparr>pos = zero3, ori = identity3, parent = None, components = []\<rparr>"

definition heap0 :: heap where
  "heap0 = (\<lambda>_. fresh)"

section \<open>The scene (animator/scene.py)\<close>

text \<open>
  A Python \<open>dict\<close> is an association list in insertion order with distinct keys:
  \<open>map_of\<close> reads a key, \<open>AList.update\<close> writes one (in place if the key is there,
  at the end if not), and \<open>len\<close> is the length. The docstrings key the entities by a
  string alias, but the dict takes any hashable key and \<open>Scene.reset\<close> reads it with
  integers, so a key is a string or an integer.
\<close>

datatype key = KStr string | KInt int

text \<open>\<open>d.update(new)\<close>.\<close>

definition dict_update :: "('k \<times> 'v) list \<Rightarrow> ('k \<times> 'v) list \<Rightarrow> ('k \<times> 'v) list" where
  "dict_update d new = fold (\<lambda>kv acc. AList.update (fst kv) (snd kv) acc) new d"

text \<open>
  The attributes of a \<open>Scene\<close>. The state of an entity is a value of type \<open>'e\<close>, so
  that \<open>deepcopy\<close> is the identity. \<open>script\<close> maps a frame number to the list of its
  instructions, which are strings of Python source.
\<close>

record 'e scene =
  width :: int
  height :: int
  resolution :: real
  entities :: "(key \<times> 'e) list"
  entities_init :: "(key \<times> 'e) list"
  background :: "int list"
  origin :: "int list"
  script :: "(int \<times> string list) list"
  current_frame :: int
  fps :: int

text \<open>\<open>Scene.add_instruction(self, frame_no, instruction)\<close>.\<close>

definition add_instruction :: "int \<Rightarrow> string \<Rightarrow> 'e scene \<Rightarrow> 'e scene" where
  "add_instruction frame_no instruction sc =
     (let s1 = (if map_of (script sc) frame_no = None
                then AList.update frame_no [] (script sc) else script sc)
      in sc\<lparr>script := AList.update frame_no
            ((case map_of s1 frame_no of None \<Rightarrow> [] | Some l \<Rightarrow> l) @ [instruction]) s1\<rparr>)"

text \<open>
  \<open>Scene.__init__(self, width, height, resolution, fps, entities, background)\<close>.
  \<open>self.entities = entities\<close> keeps the caller's dict; the model is given what that
  dict holds when the constructor runs. The last statement is
  \<open>self.add_instruction(0, "")\<close>.
\<close>

definition Scene_init ::
  "int \<Rightarrow> int \<Rightarrow> real \<Rightarrow> int \<Rightarrow> (key \<times> 'e) list \<Rightarrow> int list \<Rightarrow> 'e scene" where
  "Scene_init w h res f ents bg =
     add_instruction 0 ''''
       \<lparr>width = w, height = h, resolution = res, entities = ents, entities_init = ents,
        background = bg, origin = [w div 2, h div 2], script = [], current_frame = 0,
        fps = f\<rparr>"

text \<open>\<open>Scene.add_entities(self, new_entities)\<close>.\<close>

definition add_entities :: "(key \<times> 'e) list \<Rightarrow> 'e scene \<Rightarrow> 'e scene" where
  "add_entities new_entities sc =
     sc\<lparr>entities := dict_update (entities sc) new_entities,
        entities_init := dict_update (entities_init sc) new_entities\<rparr>"

text \<open>
  \<open>Scene.reset(self)\<close>. The loop runs \<open>i\<close> over \<open>range(len(self.entities))\<close> and
  reads \<open>self.entities_init[i]\<close>, which raises KeyError when the integer \<open>i\<close> is not
  a key; \<open>self.current_frame = 0\<close> comes after the loop.
\<close>

fun reset_loop :: "nat list \<Rightarrow> 'e scene \<Rightarrow> 'e scene \<times> error option" where
  "reset_loop [] sc = (sc, None)"
| "reset_loop (i # is) sc =
     (case map_of (entities_init sc) (KInt (int i)) of
        None \<Rightarrow> (sc, Some KeyError)
      | Some v \<Rightarrow> reset_loop is (sc\<lparr>entities := AList.update (KInt (int i)) v (entities sc)\<rparr>))"

definition reset :: "'e scene \<Rightarrow> 'e scene \<times> error option" where
  "reset sc =
     (case reset_loop [0..<length (entities sc)] sc of
        (sc', Some e) \<Rightarrow> (sc', Some e)
      | (sc', None) \<Rightarrow> (sc'\<lparr>current_frame := 0\<rparr>, None))"

text \<open>
  What the scene prints. A line of \<open>set_frame_no\<close>'s failure report, or the progress
  line of \<open>get_frames\<close>. \<open>Time\<close> holds \<open>i / self.fps\<close>.
\<close>

datatype out = FailedToExecute | FrameNo int | Time real | InstructionText string
  | BlankLine | GettingFrame int int

text \<open>
  \<open>exec(instruction)\<close> runs Python source. The instructions that animation.py writes
  call a method of \<open>self.entities[alias]\<close>, so the interpreter is a parameter \<open>ex\<close>
  that takes the instruction and the entities and returns the entities it leaves and
  the exception it raised, if any.

  The body of the inner loop of \<open>set_frame_no\<close> for the instructions of frame \<open>i\<close>. In
  the handler, \<open>i / self.fps\<close> raises ZeroDivisionError itself when \<open>fps\<close> is 0, after
  two lines are printed; otherwise the handler prints five lines and re-raises.
\<close>

fun run_instructions ::
  "(string \<Rightarrow> (key \<times> 'e) list \<Rightarrow> (key \<times> 'e) list \<times> error option) \<Rightarrow> int \<Rightarrow> string list
     \<Rightarrow> 'e scene \<Rightarrow> 'e scene \<times> out list \<times> error option" where
  "run_instructions ex i [] sc = (sc, [], None)"
| "run_instructions ex i (instruction # rest) sc =
     (case ex instruction (entities sc) of
        (ents, Some e) \<Rightarrow>
          (if fps sc = 0
           then (sc\<lparr>entities := ents\<rparr>, [FailedToExecute, FrameNo i], Some ZeroDivisionError)
           else (sc\<lparr>entities := ents\<rparr>,
                 [FailedToExecute, FrameNo i, Time (of_int i / of_int (fps sc)),
                  InstructionText instruction, BlankLine], Some e))
      | (ents, None) \<Rightarrow> run_instructions ex i rest (sc\<lparr>entities := ents\<rparr>))"

text \<open>The outer loop of \<open>set_frame_no\<close> over the frames \<open>i\<close> of the range.\<close>

fun replay ::
  "(string \<Rightarrow> (key \<times> 'e) list \<Rightarrow> (key \<times> 'e) list \<times> error option) \<Rightarrow> int list
     \<Rightarrow> 'e scene \<Rightarrow> 'e scene \<times> out list \<times> error option" where
  "replay ex [] sc = (sc, [], None)"
| "replay ex (i # is) sc =
     (case map_of (script sc) i of
        None \<Rightarrow> replay ex is sc
      | Some instructions \<Rightarrow>
          (case run_instructions ex i instructions sc of
             (sc', out1, Some e) \<Rightarrow> (sc', out1, Some e)
           | (sc', out1, None) \<Rightarrow>
               (case replay ex is sc' of (sc'', out2, r) \<Rightarrow> (sc'', out1 @ out2, r))))"

text \<open>
  \<open>Scene.set_frame_no(self, frame_no)\<close>, with \<open>display=False\<close>, its default and the
  value \<open>get_frames\<close> calls it with. \<open>range(self.current_frame, frame_no)\<close> is read
  after the reset.
\<close>

definition set_frame_no ::
  "(string \<Rightarrow> (key \<times> 'e) list \<Rightarrow> (key \<times> 'e) list \<times> error option) \<Rightarrow> int
     \<Rightarrow> 'e scene \<Rightarrow> 'e scene \<times> out list \<times> error option" where
  "set_frame_no ex frame_no sc =
     (case (if frame_no < current_frame sc then reset sc else (sc, None)) of
        (sc1, Some e) \<Rightarrow> (sc1, [], Some e)
      | (sc1, None) \<Rightarrow>
          (case replay ex [current_frame sc1 .. frame_no - 1] sc1 of
             (sc2, out1, Some e) \<Rightarrow> (sc2, out1, Some e)
           | (sc2, out1, None) \<Rightarrow> (sc2\<lparr>current_frame := frame_no\<rparr>, out1, None)))"

text \<open>
  \<open>Scene.get_frames(self, start_frame, end_frame, status)\<close>. \<open>capture_frame\<close> draws
  with cv2 and does not change the scene; it is the parameter \<open>cap\<close>. The loop body
  prints the progress line, seeks, and appends the captured frame; an exception leaves
  the function without returning \<open>frames\<close>.
\<close>

fun get_frames_loop ::
  "(string \<Rightarrow> (key \<times> 'e) list \<Rightarrow> (key \<times> 'e) list \<times> error option) \<Rightarrow> ('e scene \<Rightarrow> 'f)
     \<Rightarrow> bool \<Rightarrow> int \<Rightarrow> int list \<Rightarrow> 'f list \<Rightarrow> 'e scene
     \<Rightarrow> 'e scene \<times> out list \<times> (error + 'f list)" where
  "get_frames_loop ex cap status end_frame [] frames sc = (sc, [], Inr frames)"
| "get_frames_loop ex cap status end_frame (i # is) frames sc =
     (let out1 = (if status \<and> (i mod 10 = 0 \<or> i = end_frame)
                  then [GettingFrame i end_frame] else [])
      in case set_frame_no ex i sc of
           (sc', out2, Some e) \<Rightarrow> (sc', out1 @ out2, Inl e)
         | (sc', out2, None) \<Rightarrow>
             (case get_frames_loop ex cap status end_frame is (frames @ [cap sc']) sc' of
                (sc'', out3, r) \<Rightarrow> (sc'', out1 @ out2 @ out3, r)))"

definition get_frames ::
  "(string \<Rightarrow> (key \<times> 'e) list \<Rightarrow> (key \<times> 'e) list \<times> error option) \<Rightarrow> ('e scene \<Rightarrow> 'f)
     \<Rightarrow> int \<Rightarrow> int option \<Rightarrow> bool \<Rightarrow> 'e scene
     \<Rightarrow> 'e scene \<times> out list \<times> (error + 'f list)" where
  "get_frames ex cap start_frame end_frame status sc =
     (case end_frame of
        None \<Rightarrow>
          (if script sc = [] then (sc, [], Inl ValueError)
           else get_frames_loop ex cap status (Max (set (map fst (script sc))))
                  [start_frame .. Max (set (map fst (script sc)))] [] sc)
      | Some e \<Rightarrow> get_frames_loop ex cap status e [start_frame .. e] [] sc)"

text \<open>
  An interpreter for concrete runs, on entities whose state is their position. It runs
  the empty instruction and the call \<open>self.entities[alias].move(dpos=d)\<close> that
  \<open>animation.slide\<close> writes, given as \<open>move_text\<close> with its alias and displacement;
  the lookup of the alias raises KeyError when it is not registered.
\<close>

definition exec_move ::
  "string \<Rightarrow> string \<Rightarrow> vec3 \<Rightarrow> string \<Rightarrow> (key \<times> vec3) list \<Rightarrow> (key \<times> vec3) list \<times> error option" where
  "exec_move move_text alias d instruction ents =
     (if instruction = '''' then (ents, None)
      else if instruction = move_text then
        (case map_of ents (KStr alias) of
           None \<Rightarrow> (ents, Some KeyError)
         | Some p \<Rightarrow> (AList.update (KStr alias) (vadd p d) ents, None))
      else (ents, Some (ExecError instruction)))"

text \<open>
  A concrete scene: one entity registered under the alias \<open>a\<close> at the origin, and at
  frame 0 the relative move that \<open>animation.slide\<close> writes for the displacement
  \<open>[1, 0, 0]\<close>.
\<close>

definition slide_a_text :: string where
  \<open>slide_a_text = ''self.entities["a"].move(dpos=[1.0, 0.0, 0.0])''\<close>

definition slide_scene :: "vec3 scene" where
  "slide_scene =
     add_instruction 0 slide_a_text
       (add_entities [(KStr ''a'', (0, 0, 0))] (Scene_init 640 480 1 30 [] [0, 0, 0]))"

definition exec_slide_a :: "string \<Rightarrow> (key \<times> vec3) list \<Rightarrow> (key \<times> vec3) list \<times> error option" where
  "exec_slide_a = exec_move slide_a_text ''a'' (1, 0, 0)"

text \<open>
  A second concrete scene: the entity \<open>a\<close> is registered, and frame 5 holds a move of
  the alias \<open>b\<close>, which is not.
\<close>

definition slide_b_text :: string where
  \<open>slide_b_text = ''self.entities["b"].move(dpos=[1.0, 0.0, 0.0])''\<close>

definition unregistered_scene :: "vec3 scene" where
  "unregistered_scene =
     add_instruction 5 slide_b_text
       (add_entities [(KStr ''a'', (0, 0, 0))] (Scene_init 640 480 1 30 [] [0, 0, 0]))"

definition exec_slide_b :: "string \<Rightarrow> (key \<times> vec3) list \<Rightarrow> (key \<times> vec3) list \<times> error option" where
  "exec_slide_b = exec_move slide_b_text ''b'' (1, 0, 0)"

section \<open>Distance to a polygon (animator/funcs.py)\<close>

text \<open>
  \<open>dist_to_poly\<close> returns a float that may be \<open>np.inf\<close> or \<open>-np.inf\<close>. The finite
  values are real numbers here: the statements below are about which crossings are
  kept, their minimum and the sign, not about rounding.
\<close>

datatype xreal = NegInf | Fin real | PosInf

text \<open>
  \<open>Polygon.get_points()[0]\<close>, from the global positions of the polygon's points: the
  rows \<open>[x, y, 0]\<close>.
\<close>

definition get_points :: "vec3 list \<Rightarrow> vec3 list" where
  "get_points gs = map (\<lambda>g. case g of (x, y, z) \<Rightarrow> (x, y, 0)) gs"

text \<open>
  The edges \<open>(vertices[i], vertices[(i+1) % len(vertices)])\<close> in the order of the loop.
\<close>

definition edges :: "vec3 list \<Rightarrow> (vec3 \<times> vec3) list" where
  "edges vertices = zip vertices (rotate1 vertices)"

text \<open>
  The body of the loop for one edge, on the pair of \<open>min_line_fwd_dist\<close> (\<open>None\<close> is
  \<open>np.inf\<close>) and \<open>inside_factor\<close>. When \<open>norm_start\<close> and \<open>norm_end\<close> are both
  zero, numpy divides zero by zero into \<open>nan\<close>, \<open>fwd_dist\<close> is \<open>nan\<close>, and both
  comparisons are false, so the edge changes nothing.
\<close>

definition edge_step ::
  "vec3 \<Rightarrow> vec3 \<Rightarrow> vec3 \<Rightarrow> vec3 \<times> vec3 \<Rightarrow> real option \<times> real \<Rightarrow> real option \<times> real" where
  "edge_step a n p edge acc =
     (case edge of (start, end) \<Rightarrow> case acc of (min_line_fwd_dist, inside_factor) \<Rightarrow>
        let norm_start = dot n (vsub start p);
            norm_end = dot n (vsub end p);
            ax_start = dot a (vsub start p);
            ax_end = dot a (vsub end p)
        in if norm_start * norm_end > 0 then (min_line_fwd_dist, inside_factor)
           else if norm_end - norm_start = 0 then (min_line_fwd_dist, inside_factor)
           else
             let fwd_dist = ax_start + ((0 - norm_start) / (norm_end - norm_start) *
                                          (ax_end - ax_start))
             in if fwd_dist < 0 then (min_line_fwd_dist, - 1)
                else if (case min_line_fwd_dist of None \<Rightarrow> True | Some m \<Rightarrow> fwd_dist < m)
                then (Some fwd_dist, inside_factor)
                else (min_line_fwd_dist, inside_factor))"

text \<open>
  \<open>dist_to_poly(poly, point, dir)\<close>, given the global positions of the polygon's points
  and the global position \<open>point.gpos()\<close> of the reference point. The result is
  \<open>inside_factor * min_line_fwd_dist\<close>.
\<close>

definition dist_to_poly :: "vec3 list \<Rightarrow> vec3 \<Rightarrow> vec3 \<Rightarrow> xreal" where
  "dist_to_poly poly point dir =
     (let a = (case dir of (x, y, z) \<Rightarrow>
                 (x / sqrt (dot dir dir), y / sqrt (dot dir dir), z / sqrt (dot dir dir)));
          n = (case a of (a0, a1, a2) \<Rightarrow> (- a1, a0, 0))
      in case fold (edge_step a n point) (edges (get_points poly)) (None, 1) of
           (None, inside_factor) \<Rightarrow> if inside_factor < 0 then NegInf else PosInf
         | (Some m, inside_factor) \<Rightarrow> Fin (inside_factor * m))"

text \<open>
  The words of the claim. The forward distance at which an edge crosses the line of the
  ray, if it does: the interpolated position along the ray where the signed offset from
  the line is zero.
\<close>

definition crossing :: "vec3 \<Rightarrow> vec3 \<Rightarrow> vec3 \<Rightarrow> vec3 \<times> vec3 \<Rightarrow> real option" where
  "crossing a n p edge =
     (case edge of (start, end) \<Rightarrow>
        if dot n (vsub start p) * dot n (vsub end p) > 0 then None
        else if dot n (vsub end p) = dot n (vsub start p) then None
        else Some (dot a (vsub start p) +
                   (0 - dot n (vsub start p)) / (dot n (vsub end p) - dot n (vsub start p)) *
                   (dot a (vsub end p) - dot a (vsub start p))))"

definition crossing_dists :: "vec3 list \<Rightarrow> vec3 \<Rightarrow> vec3 \<Rightarrow> real list" where
  "crossing_dists poly point dir =
     (let a = (case dir of (x, y, z) \<Rightarrow>
                 (x / sqrt (dot dir dir), y / sqrt (dot dir dir), z / sqrt (dot dir dir)));
          n = (case a of (a0, a1, a2) \<Rightarrow> (- a1, a0, 0))
      in List.map_filter (crossing a n point) (edges (get_points poly)))"

definition forward_dists :: "vec3 list \<Rightarrow> vec3 \<Rightarrow> vec3 \<Rightarrow> real list" where
  "forward_dists poly point dir = filter (\<lambda>d. 0 \<le> d) (crossing_dists poly point dir)"

definition backward_crossing :: "vec3 list \<Rightarrow> vec3 \<Rightarrow> vec3 \<Rightarrow> bool" where
  "backward_crossing poly point dir = list_ex (\<lambda>d. d < 0) (crossing_dists poly point dir)"

text \<open>The unit square centred at the origin.\<close>

definition unit_square :: "vec3 list" where
  "unit_square = [(1/2, 1/2, 0), (- 1/2, 1/2, 0), (- 1/2, - 1/2, 0), (1/2, - 1/2, 0)]"

section \<open>Minimum zone flatness (projects/001_2d_flatness_calc/flatness_visualizer_2d.py)\<close>

text \<open>
  A row of the \<open>points\<close> array is a pair of numbers, real numbers here.
  \<open>np.argmin\<close> and \<open>np.argmax\<close> return the index of the first least and the first
  greatest element.
\<close>

type_synonym vec2 = "real \<times> real"

definition dot2 :: "vec2 \<Rightarrow> vec2 \<Rightarrow> real" where
  "dot2 u v = fst u * fst v + snd u * snd v"

definition neg2 :: "vec2 \<Rightarrow> vec2" where
  "neg2 u = (- fst u, - snd u)"

definition argmin_first :: "real list \<Rightarrow> nat" where
  "argmin_first xs = length (takeWhile (\<lambda>x. x \<noteq> Min (set xs)) xs)"

definition argmax_first :: "real list \<Rightarrow> nat" where
  "argmax_first xs = length (takeWhile (\<lambda>x. x \<noteq> Max (set xs)) xs)"

text \<open>
  The local variables of \<open>calc_flatness\<close>. \<open>p0_dir\<close> and \<open>p1_dir\<close> are assigned only
  inside the \<open>for\<close> loop, in the branch for a point that differs from \<open>p0\<close> (from
  \<open>p1\<close>); they are unbound (\<open>None\<close>) until then and keep their value from one
  iteration to the next, also across iterations of the \<open>while\<close> loop.
\<close>

record frame =
  p0 :: vec2
  p1 :: vec2
  p0_slope :: vec2
  p1_slope :: vec2
  flatness_step_vals :: "real list"
  slope_vals :: "vec2 list"
  p0_vals :: "vec2 list"
  p1_vals :: "vec2 list"
  p0_dirs :: "vec2 list"
  p0_dot_prods :: "real list"
  p1_dirs :: "vec2 list"
  p1_dot_prods :: "real list"
  p0_dir :: "vec2 option"
  p1_dir :: "vec2 option"

text \<open>
  The body of the \<open>for\<close> loop for one point. Reading \<open>p0_dir\<close> (\<open>p1_dir\<close>) in the
  call of \<open>np.dot\<close> raises UnboundLocalError while it is unbound.
\<close>

definition assess :: "vec2 \<Rightarrow> frame \<Rightarrow> error + frame" where
  "assess point fr =
     (let fr1 =
        (if point \<noteq> p0 fr then
           (let p0_dist = sqrt ((fst point - fst (p0 fr))\<^sup>2 + (snd point - snd (p0 fr))\<^sup>2);
                d = ((fst point - fst (p0 fr)) / p0_dist, (snd point - snd (p0 fr)) / p0_dist)
            in fr\<lparr>p0_dir := Some d, p0_dirs := p0_dirs fr @ [d]\<rparr>)
         else fr\<lparr>p0_dirs := p0_dirs fr @ [(0, 0)]\<rparr>)
      in case p0_dir fr1 of
           None \<Rightarrow> Inl UnboundLocalError
         | Some d0 \<Rightarrow>
             (let fr2 = fr1\<lparr>p0_dot_prods := p0_dot_prods fr1 @ [dot2 (p0_slope fr1) d0]\<rparr>;
                  fr3 =
                    (if point \<noteq> p1 fr2 then
                       (let p1_dist = sqrt ((fst point - fst (p1 fr2))\<^sup>2 +
                                            (snd point - snd (p1 fr2))\<^sup>2);
                            d = ((fst point - fst (p1 fr2)) / p1_dist,
                                 (snd point - snd (p1 fr2)) / p1_dist)
                        in fr2\<lparr>p1_dir := Some d, p1_dirs := p1_dirs fr2 @ [d]\<rparr>)
                     else fr2\<lparr>p1_dirs := p1_dirs fr2 @ [(0, 0)]\<rparr>)
              in case p1_dir fr3 of
                   None \<Rightarrow> Inl UnboundLocalError
                 | Some d1 \<Rightarrow>
                     Inr (fr3\<lparr>p1_dot_prods := p1_dot_prods fr3 @ [dot2 (p1_slope fr3) d1]\<rparr>)))"

text \<open>The \<open>for\<close> loop over the rows of \<open>points\<close>.\<close>

fun for_points :: "vec2 list \<Rightarrow> frame \<Rightarrow> error + frame" where
  "for_points [] fr = Inr fr"
| "for_points (point # rest) fr =
     (case assess point fr of Inl e \<Rightarrow> Inl e | Inr fr' \<Rightarrow> for_points rest fr')"

text \<open>
  The body of the \<open>while\<close> loop: the four lists are emptied, the \<open>for\<close> loop fills
  them, the anchor with the greater maximum rolls onto its point (\<open>p0\<close> when the maxima
  are equal), and the step's flatness is tabulated.
\<close>

definition roll_step :: "vec2 list \<Rightarrow> frame \<Rightarrow> error + frame" where
  "roll_step points fr =
     (case for_points points
             (fr\<lparr>p0_dirs := [], p0_dot_prods := [], p1_dirs := [], p1_dot_prods := []\<rparr>) of
        Inl e \<Rightarrow> Inl e
      | Inr fr1 \<Rightarrow>
          if p0_dot_prods fr1 = [] \<or> p1_dot_prods fr1 = [] then Inl ValueError
          else
            (let p0_max_dp = Max (set (p0_dot_prods fr1));
                 p0_max_dp_index = argmax_first (p0_dot_prods fr1);
                 p1_max_dp = Max (set (p1_dot_prods fr1));
                 p1_max_dp_index = argmax_first (p1_dot_prods fr1);
                 fr2 =
                   (if p0_max_dp \<ge> p1_max_dp
                    then fr1\<lparr>p0 := points ! p0_max_dp_index,
                             p0_slope := p0_dirs fr1 ! p0_max_dp_index,
                             p1_slope := neg2 (p0_dirs fr1 ! p0_max_dp_index)\<rparr>
                    else fr1\<lparr>p1 := points ! p1_max_dp_index,
                             p1_slope := p1_dirs fr1 ! p1_max_dp_index,
                             p0_slope := neg2 (p1_dirs fr1 ! p1_max_dp_index)\<rparr>);
                 p01 = (fst (p1 fr2) - fst (p0 fr2), snd (p1 fr2) - snd (p0 fr2));
                 flat_normal = (- snd (p0_slope fr2), fst (p0_slope fr2));
                 flatness_step_val = \<bar>dot2 p01 flat_normal\<bar>
             in Inr (fr2\<lparr>flatness_step_vals := flatness_step_vals fr2 @ [flatness_step_val],
                         slope_vals := slope_vals fr2 @ [p0_slope fr2],
                         p0_vals := p0_vals fr2 @ [p0 fr2],
                         p1_vals := p1_vals fr2 @ [p1 fr2]\<rparr>)))"

text \<open>
  The \<open>while\<close> loop. It may run forever, which is the value \<open>None\<close>; an exception in
  the body ends it.
\<close>

partial_function (option) rolling ::
  "vec2 list \<Rightarrow> nat \<Rightarrow> nat \<Rightarrow> frame \<Rightarrow> (error + frame) option" where
  "rolling points n0 n1 fr =
     (if p0 fr \<noteq> points ! n1 \<and> p1 fr \<noteq> points ! n0
      then (case roll_step points fr of
              Inl e \<Rightarrow> Some (Inl e)
            | Inr fr' \<Rightarrow> rolling points n0 n1 fr')
      else Some (Inr fr))"

text \<open>
  \<open>calc_flatness(points, data)\<close>. \<open>np.argmin\<close> of an empty array and \<open>np.min\<close> of
  an empty \<open>flatness_step_vals\<close> raise ValueError.
\<close>

datatype flat_result = Flatness real
  | FlatnessData real "real list" "vec2 list" "vec2 list" "vec2 list"

definition calc_flatness :: "vec2 list \<Rightarrow> bool \<Rightarrow> (error + flat_result) option" where
  "calc_flatness points data =
     (if points = [] then Some (Inl ValueError)
      else
        (let n0 = argmin_first (map snd points);
             n1 = argmax_first (map snd points)
         in case rolling points n0 n1
                   \<lparr>p0 = points ! n0, p1 = points ! n1, p0_slope = (1, 0),
                    p1_slope = neg2 (1, 0), flatness_step_vals = [], slope_vals = [],
                    p0_vals = [], p1_vals = [], p0_dirs = [], p0_dot_prods = [],
                    p1_dirs = [], p1_dot_prods = [], p0_dir = None, p1_dir = None\<rparr> of
              None \<Rightarrow> None
            | Some (Inl e) \<Rightarrow> Some (Inl e)
            | Some (Inr fr) \<Rightarrow>
                if flatness_step_vals fr = [] then Some (Inl ValueError)
                else if data
                then Some (Inr (FlatnessData (Min (set (flatness_step_vals fr)))
                                  (flatness_step_vals fr) (slope_vals fr) (p0_vals fr)
                                  (p1_vals fr)))
                else Some (Inr (Flatness (Min (set (flatness_step_vals fr)))))))"

text \<open>
  Three points, pairwise distinct and not on a line; the point with the least \<open>y\<close> is
  the second row and the point with the greatest \<open>y\<close> is the third.
\<close>

definition three_points :: "vec2 list" where
  "three_points = [(12, 5), (0, 0), (12, 9)]"

text \<open>
  The frames of \<open>calc_flatness\<close> on \<open>three_points\<close> in which \<open>p0\<close> sits on the first
  row with both slopes zero, and \<open>p0_dir\<close> and \<open>p1_dir\<close> are bound.
\<close>

definition stuck :: "frame \<Rightarrow> bool" where
  "stuck fr \<longleftrightarrow>
     p0 fr = (12, 5) \<and> p1 fr = (12, 9) \<and> p0_slope fr = (0, 0) \<and> p1_slope fr = (0, 0) \<and>
     p0_dir fr \<noteq> None \<and> p1_dir fr \<noteq> None"

section \<open>Jagged contours (animator/entities/contour2d.py)\<close>

text \<open>
  \<open>np.random\<close> is a generator with a hidden global state. The state is a value of
  type \<open>'g\<close>, passed in and returned; numpy's three functions are parameters:
  \<open>np.random.seed(s)\<close> makes a state from the seed alone, \<open>np.random.dirichlet(alpha)\<close>
  and \<open>np.random.uniform(low, high, (n, 1))\<close> draw from a state and return the next
  one. Each may raise.
\<close>

record 'g numpy_random =
  seed_rng :: "int \<Rightarrow> error + 'g"
  dirichlet :: "real list \<Rightarrow> 'g \<Rightarrow> error + real list \<times> 'g"
  uniform :: "real \<Rightarrow> real \<Rightarrow> nat \<Rightarrow> 'g \<Rightarrow> error + real list \<times> 'g"

text \<open>
  The attributes that \<open>Contour2D.__init__\<close> puts, and the three classes of contours:
  a \<open>Contour2D\<close> of component contours, a \<open>LineContour2D\<close> from \<open>start\<close> to \<open>end\<close>, an
  \<open>ArcContour2D\<close> with \<open>ctr\<close>, \<open>rad\<close>, \<open>ang1\<close> and \<open>ang2\<close>.
\<close>

record attrs =
  jaggedness :: real
  n_points :: int
  seed :: int

datatype contour =
    Contour2D "contour list" attrs
  | LineContour2D vec2 vec2 attrs
  | ArcContour2D vec2 real real real attrs

fun attrs_of :: "contour \<Rightarrow> attrs" where
  "attrs_of (Contour2D cs a) = a"
| "attrs_of (LineContour2D s e a) = a"
| "attrs_of (ArcContour2D c r a1 a2 a) = a"

text \<open>\<open>np.cumsum\<close>.\<close>

fun cumsum_from :: "real \<Rightarrow> real list \<Rightarrow> real list" where
  "cumsum_from acc [] = []"
| "cumsum_from acc (x # xs) = (acc + x) # cumsum_from (acc + x) xs"

definition cumsum :: "real list \<Rightarrow> real list" where
  "cumsum xs = cumsum_from 0 xs"

text \<open>
  The spacings of \<open>LineContour2D.segments\<close> and \<open>ArcContour2D.segments\<close>: the seed is
  set, \<open>n_points - 1\<close> values are drawn (\<open>np.ones\<close> refuses a negative length), and 0
  is put in front.
\<close>

definition spaces :: "'g numpy_random \<Rightarrow> attrs \<Rightarrow> error + real list \<times> 'g" where
  "spaces R a =
     (case seed_rng R (seed a) of
        Inl e \<Rightarrow> Inl e
      | Inr g1 \<Rightarrow>
          if n_points a - 1 < 0 then Inl ValueError
          else (case dirichlet R (replicate (nat (n_points a - 1)) 10) g1 of
                  Inl e \<Rightarrow> Inl e
                | Inr (sp, g2) \<Rightarrow> Inr (0 # sp, g2)))"

text \<open>
  \<open>segments(self)\<close> of the three classes, returning \<open>(points, normals)\<close>; the loop of
  \<open>Contour2D.segments\<close> over the components stacks their points and normals.
\<close>

fun segments ::
  "'g numpy_random \<Rightarrow> contour \<Rightarrow> 'g \<Rightarrow> error + (vec2 list \<times> vec2 list) \<times> 'g"
  and segments_loop ::
  "'g numpy_random \<Rightarrow> contour list \<Rightarrow> vec2 list \<times> vec2 list \<Rightarrow> 'g
     \<Rightarrow> error + (vec2 list \<times> vec2 list) \<times> 'g" where
  "segments R (Contour2D cs a) g = segments_loop R cs ([], []) g"
| "segments R (LineContour2D start end a) g =
     (case spaces R a of
        Inl e \<Rightarrow> Inl e
      | Inr (sp, g2) \<Rightarrow>
          (let d = (fst end - fst start, snd end - snd start);
               points = map (\<lambda>c. (fst start + c * fst d, snd start + c * snd d)) (cumsum sp);
               normal = (- snd d / sqrt ((fst d)\<^sup>2 + (snd d)\<^sup>2),
                         fst d / sqrt ((fst d)\<^sup>2 + (snd d)\<^sup>2));
               normals = replicate (nat (n_points a)) normal
           in Inr ((points, normals), g2)))"
| "segments R (ArcContour2D ctr rad ang1 ang2 a) g =
     (case spaces R a of
        Inl e \<Rightarrow> Inl e
      | Inr (sp, g2) \<Rightarrow>
          (let angs = map (\<lambda>c. ang1 + (ang2 - ang1) * c) (cumsum sp);
               points = map (\<lambda>t. (fst ctr + rad * cos t, snd ctr + rad * sin t)) angs;
               normals = map (\<lambda>t. (cos t, sin t)) angs
           in Inr ((points, normals), g2)))"
| "segments_loop R [] acc g = Inr (acc, g)"
| "segments_loop R (c # cs) acc g =
     (case segments R c g of
        Inl e \<Rightarrow> Inl e
      | Inr ((p, n), g') \<Rightarrow> segments_loop R cs (fst acc @ p, snd acc @ n) g')"

text \<open>
  \<open>Contour2D.jagged_points(self)\<close>, run on the generator state \<open>g\<close> that the caller
  leaves; it returns the points and the state it leaves. \<open>offsets[0] = [0]\<close> raises
  IndexError on an empty array. numpy's functions return as many values as they are
  asked for, so \<open>points\<close>, \<open>offsets\<close> and \<open>normals\<close> have the same length; lists
  of different lengths are refused.
\<close>

definition jagged_points ::
  "'g numpy_random \<Rightarrow> contour \<Rightarrow> 'g \<Rightarrow> error + vec2 list \<times> 'g" where
  "jagged_points R self g =
     (case seed_rng R (seed (attrs_of self)) of
        Inl e \<Rightarrow> Inl e
      | Inr g1 \<Rightarrow>
          (case segments R self g1 of
             Inl e \<Rightarrow> Inl e
           | Inr ((points, normals), g2) \<Rightarrow>
               (case uniform R (- jaggedness (attrs_of self)) (jaggedness (attrs_of self))
                       (length points) g2 of
                  Inl e \<Rightarrow> Inl e
                | Inr (drawn, g3) \<Rightarrow>
                    if drawn = [] then Inl IndexError
                    else if length drawn \<noteq> length points \<or> length normals \<noteq> length points
                    then Inl ValueError
                    else
                      (let offsets = (drawn[0 := 0])[length drawn - 1 := 0]
                       in Inr (map (\<lambda>(p, off, n). (fst p + off * fst n, snd p + off * snd n))
                                 (zip points (zip offsets normals)), g3)))))"

text \<open>
  A generator for concrete runs: its state is a counter, \<open>seed\<close> sets it, and each
  value drawn advances it.
\<close>

definition counter_random :: "nat numpy_random" where
  "counter_random =
     \<lparr>seed_rng = (\<lambda>s. if s < 0 then Inl ValueError else Inr (nat s)),
      dirichlet = (\<lambda>alpha g. Inr (map (\<lambda>_. 1 / real (length alpha)) alpha, g + length alpha)),
      uniform = (\<lambda>low high n g.
         Inr (map (\<lambda>i. if even i then low else high) [0..<n], g + n))\<rparr>"

section \<open>Interpolation profiles (animator/funcs.py)\<close>

text \<open>
  \<open>span\<close> computes with numpy's doubles. The model computes with real numbers and
  passes the result of every arithmetic operation through a rounding function \<open>rnd\<close>,
  a parameter: with the identity it is exact arithmetic, with \<open>double_round\<close> below it
  is binary64 arithmetic as long as no result overflows or is subnormal. A result that
  numpy makes \<open>inf\<close> or \<open>nan\<close> by dividing by zero (a warning, not an exception) is
  the outcome \<open>NonFinite\<close>.
\<close>

datatype span_error = ShapeMismatch | NonFinite

text \<open>
  \<open>np.linspace(a, b, n)\<close>: \<open>step = (b - a) / (n - 1)\<close>, the elements
  \<open>i * step + a\<close>, and the last element set to \<open>b\<close>.
\<close>

definition linspace :: "(real \<Rightarrow> real) \<Rightarrow> real \<Rightarrow> real \<Rightarrow> nat \<Rightarrow> real list" where
  "linspace rnd a b n =
     (if n = 0 then [] else if n = 1 then [a]
      else map (\<lambda>i. rnd (rnd (real i * rnd (rnd (b - a) / real (n - 1))) + a)) [0..<n - 1] @ [b])"

text \<open>The distribution shape of a profile, before it is rescaled; any other name is the sigmoid.\<close>

definition profile_shape :: "(real \<Rightarrow> real) \<Rightarrow> string \<Rightarrow> nat \<Rightarrow> real list" where
  "profile_shape rnd profile n_elems =
     (if profile = ''linear'' then linspace rnd 0 1 n_elems
      else if profile = ''quadratic'' then map (\<lambda>x. rnd (x\<^sup>2)) (linspace rnd 0 1 n_elems)
      else if profile = ''neg_quadratic''
      then map (\<lambda>x. rnd (1 - rnd (x\<^sup>2))) (linspace rnd 1 0 n_elems)
      else if profile = ''sinusoid''
      then map (\<lambda>x. rnd (0.5 - rnd (rnd (cos x) / 2))) (linspace rnd 0 (rnd pi) n_elems)
      else map (\<lambda>x. rnd (1 / rnd (1 + rnd (exp (rnd (- 10 * x))))))
             (linspace rnd (- 0.5) 0.5 n_elems))"

text \<open>
  \<open>span(start, end, n_elems, profile)\<close> for \<open>start\<close> and \<open>end\<close> of the same shape, as
  lists of their components (a float is a list of one); the result is the list of the
  rows. \<open>shape -= shape[0]\<close> and \<open>shape *= 1.0 / shape[-1]\<close> read the element before
  they change the array.
\<close>

definition span ::
  "(real \<Rightarrow> real) \<Rightarrow> real list \<Rightarrow> real list \<Rightarrow> int \<Rightarrow> string \<Rightarrow> span_error + real list list" where
  "span rnd start end n_elems profile =
     (if length start \<noteq> length end then Inl ShapeMismatch
      else
        (let shape0 = (if n_elems \<le> 1 then Inr [1]
                       else
                         (let s0 = profile_shape rnd profile (nat n_elems);
                              s1 = map (\<lambda>s. rnd (s - hd s0)) s0
                          in if last s1 = 0 then Inl NonFinite
                             else Inr (map (\<lambda>s. rnd (s * rnd (1 / last s1))) s1)))
         in case shape0 of
              Inl e \<Rightarrow> Inl e
            | Inr shape \<Rightarrow>
                Inr (map (\<lambda>s. map (\<lambda>(a, b). rnd (a + rnd (s * rnd (b - a)))) (zip start end))
                       shape)))"

text \<open>
  Rounding to the nearest binary64 number, ties to the even significand, for a number
  whose magnitude is in the range of the normal doubles.
\<close>

definition round_half_even :: "real \<Rightarrow> int" where
  "round_half_even x =
     (if x - of_int \<lfloor>x\<rfloor> < 1/2 then \<lfloor>x\<rfloor>
      else if x - of_int \<lfloor>x\<rfloor> > 1/2 then \<lfloor>x\<rfloor> + 1
      else if even \<lfloor>x\<rfloor> then \<lfloor>x\<rfloor> else \<lfloor>x\<rfloor> + 1)"

definition double_round :: "real \<Rightarrow> real" where
  "double_round x =
     (if x = 0 then 0
      else of_int (round_half_even (x / 2 powr (of_int \<lfloor>log 2 \<bar>x\<bar>\<rfloor> - 52))) *
           2 powr (of_int \<lfloor>log 2 \<bar>x\<bar>\<rfloor> - 52))"

section \<open>Properties of entities\<close>

lemma attach_all_append:
  "attach_all self (rs @ ss) h = attach_all self ss (attach_all self rs h)"
  by (induction rs arbitrary: h) simp_all

lemma nodes_before_append_None:
  "None \<in> set xs \<Longrightarrow> nodes_before (xs @ ys) = nodes_before xs"
  by (induction xs rule: nodes_before.induct) auto

lemma nodes_before_append_all:
  "None \<notin> set xs \<Longrightarrow> nodes_before (xs @ ys) = nodes_before xs @ nodes_before ys"
  by (induction xs rule: nodes_before.induct) auto

lemma add_components_flat:
  "add_components self args h =
     (attach_all self (nodes_before (flatten_args args)) h,
      if None \<in> set (flatten_args args) then Some ValueError else None)"
  "add_arg self a h =
     (attach_all self (nodes_before (flatten_arg a)) h,
      if None \<in> set (flatten_arg a) then Some ValueError else None)"
  by (induction self args h and self a h rule: add_components_add_arg.induct)
     (auto simp: nodes_before_append_None nodes_before_append_all attach_all_append)

text \<open>
  C6, as stated, fails: attaching an entity followed by a value that is not an entity
  raises ValueError, but by then the entity is in the target's child list and its
  parent pointer is set.
\<close>

theorem add_components_not_atomic:
  "snd (add_components 0 [PEntity 1, POther] heap0) = Some ValueError \<and>
   components (heap0 0) = [] \<and>
   components (fst (add_components 0 [PEntity 1, POther] heap0) 0) = [1] \<and>
   parent (heap0 1) = None \<and>
   parent (fst (add_components 0 [PEntity 1, POther] heap0) 1) = Some 0"
  by (simp add: attach_def heap0_def fresh_def Let_def)

text \<open>
  C6, amended: when some argument, possibly nested in a sequence, is neither an entity
  nor a sequence, \<open>add_components\<close> raises ValueError, and the heap it leaves is the one
  in which exactly the entities that precede the first such argument, in the order the
  loops visit them, have been attached to the target.
\<close>

theorem add_components_rejects_after_prefix:
  assumes "None \<in> set (flatten_args args)"
  shows "add_components self args h =
           (attach_all self (nodes_before (flatten_args args)) h, Some ValueError)"
  using assms by (simp add: add_components_flat(1))

theorem add_components_rejects_after_prefix_witness:
  "None \<in> set (flatten_args [PSeq [PEntity 1, PSeq [PEntity 2]], POther, PEntity 3]) \<and>
   add_components 0 [PSeq [PEntity 1, PSeq [PEntity 2]], POther, PEntity 3] heap0 =
     (attach 0 2 (attach 0 1 heap0), Some ValueError)"
  using add_components_rejects_after_prefix
    [of "[PSeq [PEntity 1, PSeq [PEntity 2]], POther, PEntity 3]" 0 heap0]
  by simp

text \<open>
  C7, as stated, fails: the global position of an entity without a parent is its stored
  position, not the zero vector.
\<close>

theorem root_gpos_not_zero:
  "parent ((heap0(0 := fresh\<lparr>pos := (1, 2, 3)\<rparr>)) 0) = None \<and>
   gpos (heap0(0 := fresh\<lparr>pos := (1, 2, 3)\<rparr>)) 0 None = Some (1, 2, 3) \<and>
   gpos (heap0(0 := fresh\<lparr>pos := (1, 2, 3)\<rparr>)) 0 None \<noteq> Some zero3"
  by (simp add: gpos.simps fresh_def zero3_def)

text \<open>
  C7, amended: for every entity whose parent is None, whatever its stored position and
  orientation, \<open>gpos\<close> returns the stored position and \<open>gori\<close> returns the identity
  matrix.
\<close>

theorem root_globals:
  assumes "parent (h r) = None"
  shows "gpos h r None = Some (pos (h r)) \<and> gori h r = Some identity3"
  using assms by (simp add: gpos.simps gori.simps)

theorem root_globals_witness:
  "parent ((heap0(0 := fresh\<lparr>pos := (1, 2, 3), ori := ((0, 1, 0), (1, 0, 0), (0, 0, 1))\<rparr>)) 0) = None \<and>
   gpos (heap0(0 := fresh\<lparr>pos := (1, 2, 3), ori := ((0, 1, 0), (1, 0, 0), (0, 0, 1))\<rparr>)) 0 None
     = Some (1, 2, 3) \<and>
   gori (heap0(0 := fresh\<lparr>pos := (1, 2, 3), ori := ((0, 1, 0), (1, 0, 0), (0, 0, 1))\<rparr>)) 0
     = Some identity3"
  using root_globals
    [of "heap0(0 := fresh\<lparr>pos := (1, 2, 3), ori := ((0, 1, 0), (1, 0, 0), (0, 0, 1))\<rparr>)" 0]
  by (simp add: fresh_def)

section \<open>Properties of the scene\<close>

text \<open>
  C8, as stated, fails: a scene constructed with an empty entity dict has no entities,
  but its script is not empty.
\<close>

theorem Scene_init_script_not_empty:
  "entities (Scene_init 640 480 1 30 ([] :: (key \<times> vec3) list) [0, 0, 0]) = [] \<and>
   script (Scene_init 640 480 1 30 ([] :: (key \<times> vec3) list) [0, 0, 0]) \<noteq> []"
  by (simp add: Scene_init_def add_instruction_def)

text \<open>
  C8, amended: a newly constructed scene holds the entities of the dict it was given
  (none for an empty dict) and the same entities as its snapshot, its current frame is
  0, and its script has exactly one entry, frame 0 with the empty instruction.
\<close>

theorem Scene_init_state:
  "entities (Scene_init w h res f ents bg) = ents \<and>
   entities_init (Scene_init w h res f ents bg) = ents \<and>
   script (Scene_init w h res f ents bg) = [(0, [''''])] \<and>
   current_frame (Scene_init w h res f ents bg) = 0"
  by (simp add: Scene_init_def add_instruction_def)

lemma slide_scene_eq:
  "slide_scene =
     \<lparr>width = 640, height = 480, resolution = 1, entities = [(KStr ''a'', (0, 0, 0))],
      entities_init = [(KStr ''a'', (0, 0, 0))], background = [0, 0, 0],
      origin = [320, 240], script = [(0, ['''', slide_a_text])], current_frame = 0,
      fps = 30\<rparr>"
  by (simp add: slide_scene_def Scene_init_def add_instruction_def add_entities_def
      dict_update_def)

text \<open>
  \<open>reset\<close> raises KeyError, before it changes anything, whenever an entity is
  registered and the integer 0 is not a key of the snapshot, as with string aliases; so
  does every seek to an earlier frame.
\<close>

lemma reset_raises_without_integer_keys:
  assumes "entities sc \<noteq> []" and "map_of (entities_init sc) (KInt 0) = None"
  shows "reset sc = (sc, Some KeyError)"
proof -
  from assms(1) have "[0..<length (entities sc)] = 0 # [1..<length (entities sc)]"
    by (simp add: upt_conv_Cons)
  with assms(2) show ?thesis
    by (simp add: reset_def)
qed

lemma set_frame_no_backward_raises:
  assumes "frame_no < current_frame sc"
    and "entities sc \<noteq> []" and "map_of (entities_init sc) (KInt 0) = None"
  shows "set_frame_no ex frame_no sc = (sc, [], Some KeyError)"
  using assms by (simp add: set_frame_no_def reset_raises_without_integer_keys)

text \<open>
  C1 on the code: in the scene with the entity \<open>a\<close> and a relative move at frame 0, the
  forward seek to frame 1 moves the entity to \<open>(1, 0, 0)\<close>; the seek back to frame 0
  from there raises KeyError in \<open>reset\<close>, which reads the snapshot with the integer 0,
  and leaves the scene as it was, at frame 1.
\<close>

theorem seek_back_raises_KeyError:
  "set_frame_no exec_slide_a 1 slide_scene =
     (slide_scene\<lparr>entities := [(KStr ''a'', (1, 0, 0))], current_frame := 1\<rparr>, [], None) \<and>
   set_frame_no exec_slide_a 0
       (slide_scene\<lparr>entities := [(KStr ''a'', (1, 0, 0))], current_frame := 1\<rparr>) =
     (slide_scene\<lparr>entities := [(KStr ''a'', (1, 0, 0))], current_frame := 1\<rparr>, [],
      Some KeyError)"
  by (simp add: slide_scene_eq set_frame_no_def reset_def exec_slide_a_def exec_move_def
      slide_a_text_def vadd_def)

lemma run_instructions_fields:
  "run_instructions ex i ins sc = (sc', out1, r) \<Longrightarrow>
     current_frame sc' = current_frame sc \<and> script sc' = script sc \<and> fps sc' = fps sc"
  by (induction ins arbitrary: sc) (auto split: prod.splits option.splits if_splits)

lemma run_instructions_quiet:
  "run_instructions ex i ins sc = (sc', out1, None) \<Longrightarrow> out1 = []"
  by (induction ins arbitrary: sc) (auto split: prod.splits option.splits if_splits)

lemma scene_update_swap:
  "sc\<lparr>current_frame := c, entities := x\<rparr> = sc\<lparr>entities := x, current_frame := c\<rparr>"
  by simp

lemma run_instructions_current_frame:
  "run_instructions ex i ins (sc\<lparr>current_frame := c\<rparr>) =
     (case run_instructions ex i ins sc of (s, out1, r) \<Rightarrow> (s\<lparr>current_frame := c\<rparr>, out1, r))"
  by (induction ins arbitrary: sc)
     (auto simp: scene_update_swap split: prod.splits option.splits if_splits)

lemma run_instructions_fails_at:
  assumes "fps sc \<noteq> 0"
    and "run_instructions ex i pre sc = (scP, outP, None)"
    and "ex instruction (entities scP) = (ents, Some e)"
  shows "run_instructions ex i (pre @ instruction # post) sc =
           (scP\<lparr>entities := ents\<rparr>,
            [FailedToExecute, FrameNo i, Time (of_int i / of_int (fps sc)),
             InstructionText instruction, BlankLine], Some e)"
  using assms
  by (induction pre arbitrary: sc) (auto split: prod.splits option.splits if_splits)

lemma replay_fields:
  "replay ex is sc = (sc', out1, r) \<Longrightarrow>
     current_frame sc' = current_frame sc \<and> script sc' = script sc \<and> fps sc' = fps sc"
proof (induction "is" arbitrary: sc sc' out1 r)
  case Nil
  then show ?case by simp
next
  case (Cons i "is")
  then show ?case
    by (fastforce split: prod.splits option.splits dest: run_instructions_fields)
qed

lemma replay_quiet:
  "replay ex is sc = (sc', out1, None) \<Longrightarrow> out1 = []"
proof (induction "is" arbitrary: sc sc' out1)
  case Nil
  then show ?case by simp
next
  case (Cons i "is")
  then show ?case
    by (auto split: prod.splits option.splits dest: run_instructions_quiet)
qed

lemma replay_current_frame:
  "replay ex is (sc\<lparr>current_frame := c\<rparr>) =
     (case replay ex is sc of (s, out1, r) \<Rightarrow> (s\<lparr>current_frame := c\<rparr>, out1, r))"
  by (induction "is" arbitrary: sc)
     (auto simp: run_instructions_current_frame split: prod.splits option.splits)

lemma replay_Cons_split:
  "replay ex (i # is) sc =
     (case replay ex [i] sc of
        (s, out1, Some e) \<Rightarrow> (s, out1, Some e)
      | (s, out1, None) \<Rightarrow> (case replay ex is s of (s', out2, r) \<Rightarrow> (s', out1 @ out2, r)))"
  by (auto split: prod.splits option.splits)

lemma set_frame_no_forward:
  assumes "current_frame sc \<le> n"
  shows "set_frame_no ex n sc =
     (case replay ex [current_frame sc .. n - 1] sc of
        (s, out1, Some e) \<Rightarrow> (s, out1, Some e)
      | (s, out1, None) \<Rightarrow> (s\<lparr>current_frame := n\<rparr>, out1, None))"
  using assms by (simp add: set_frame_no_def)

lemma get_frames_loop_fails:
  assumes "current_frame sc = c" and "c \<le> k" and "k < m"
    and "replay ex [c .. k - 1] sc = (s1, out1, None)"
    and "replay ex [k] s1 = (s2, out2, Some e)"
  shows "get_frames_loop ex cap status end_frame [c + 1 .. m] frames sc =
     (s2\<lparr>current_frame := k\<rparr>,
      concat (map (\<lambda>i. if status \<and> (i mod 10 = 0 \<or> i = end_frame)
                        then [GettingFrame i end_frame] else []) [c + 1 .. k + 1]) @ out2,
      Inl e)"
  using assms
proof (induction "nat (k - c)" arbitrary: c sc frames s1 out1 s2)
  case 0
  then have ck: "c = k" by simp
  with 0 have s1: "s1 = sc" by simp
  have cf: "current_frame s2 = k"
    using replay_fields [OF "0.prems"(5)] s1 "0.prems"(1) ck by simp
  have list: "[c + 1 .. m] = (c + 1) # [c + 1 + 1 .. m]"
    using "0.prems"(3) ck by (simp add: upto_rec1)
  have prints: "[c + 1 .. k + 1] = [c + 1]"
    using ck by simp
  have seek: "set_frame_no ex (c + 1) sc = (s2, out2, Some e)"
    using "0.prems"(1,5) ck s1 by (simp add: set_frame_no_forward)
  have "s2\<lparr>current_frame := k\<rparr> = s2" using cf by simp
  then show ?case
    by (subst list, subst prints) (simp add: seek Let_def del: upto.simps)
next
  case (Suc n)
  then have lt: "c < k" by linarith
  then have range: "[c .. k - 1] = c # [c + 1 .. k - 1]"
    by (simp add: upto_rec1)
  obtain sA outA rA where rA: "replay ex [c] sc = (sA, outA, rA)"
    by (cases "replay ex [c] sc") auto
  from Suc.prems(4) range rA have rAN: "rA = None"
    by (subst (asm) range, subst (asm) replay_Cons_split) (auto split: option.splits prod.splits)
  from Suc.prems(4) range rA rAN obtain outB
    where rB: "replay ex [c + 1 .. k - 1] sA = (s1, outB, None)"
    by (subst (asm) range, subst (asm) replay_Cons_split) (auto split: option.splits prod.splits)
  have outA: "outA = []" using rA rAN replay_quiet by blast
  have seek: "set_frame_no ex (c + 1) sc = (sA\<lparr>current_frame := c + 1\<rparr>, [], None)"
    using Suc.prems(1) rA rAN outA by (simp add: set_frame_no_forward)
  have list: "[c + 1 .. m] = (c + 1) # [c + 1 + 1 .. m]"
    using lt Suc.prems(3) by (simp add: upto_rec1)
  have IH: "get_frames_loop ex cap status end_frame [c + 1 + 1 .. m]
              (frames @ [cap (sA\<lparr>current_frame := c + 1\<rparr>)]) (sA\<lparr>current_frame := c + 1\<rparr>) =
     (s2\<lparr>current_frame := c + 1\<rparr>\<lparr>current_frame := k\<rparr>,
      concat (map (\<lambda>i. if status \<and> (i mod 10 = 0 \<or> i = end_frame)
                        then [GettingFrame i end_frame] else []) [c + 1 + 1 .. k + 1]) @ out2,
      Inl e)"
  proof (rule Suc.hyps(1))
    show "n = nat (k - (c + 1))" using Suc.hyps(2) by linarith
    show "current_frame (sA\<lparr>current_frame := c + 1\<rparr>) = c + 1" by simp
    show "c + 1 \<le> k" using lt by simp
    show "k < m" by (rule Suc.prems(3))
    show "replay ex [c + 1 .. k - 1] (sA\<lparr>current_frame := c + 1\<rparr>) =
            (s1\<lparr>current_frame := c + 1\<rparr>, outB, None)"
      using rB by (simp add: replay_current_frame)
    show "replay ex [k] (s1\<lparr>current_frame := c + 1\<rparr>) = (s2\<lparr>current_frame := c + 1\<rparr>, out2, Some e)"
      using Suc.prems(5) by (simp add: replay_current_frame)
  qed
  have prints: "[c + 1 .. k + 1] = (c + 1) # [c + 1 + 1 .. k + 1]"
    using lt by (simp add: upto_rec1)
  show ?case
    using IH by (subst list, subst prints) (auto simp: seek Let_def simp del: upto.simps)
qed

text \<open>
  C5: take a scene at frame 0 with a nonzero frame rate, in which the instructions of
  frames 0 to 4 run without error and some instruction of frame 5 raises \<open>e\<close> after
  the instructions before it ran. Then \<open>get_frames(0, 10)\<close> ends with the exception
  \<open>e\<close> and returns no list of frames; what it printed ends with the failure report
  naming frame 5, the time \<open>5 / fps\<close> and the text of the failing instruction; the
  scene is left at frame 5.
\<close>

theorem get_frames_fail_fast:
  assumes "current_frame sc = 0" and "fps sc \<noteq> 0"
    and "replay ex [0 .. 4] sc = (sc5, out5, None)"
    and "map_of (script sc) 5 = Some (pre @ instruction # post)"
    and "run_instructions ex 5 pre sc5 = (scP, outP, None)"
    and "ex instruction (entities scP) = (ents, Some e)"
  shows "get_frames ex cap 0 (Some 10) status sc =
     (scP\<lparr>entities := ents, current_frame := 5\<rparr>,
      (if status then [GettingFrame 0 10] else []) @
        [FailedToExecute, FrameNo 5, Time (5 / of_int (fps sc)),
         InstructionText instruction, BlankLine],
      Inl e)"
proof -
  have f5: "fps sc5 = fps sc" and s5: "script sc5 = script sc"
    using replay_fields [OF assms(3)] by simp_all
  have run: "run_instructions ex 5 (pre @ instruction # post) sc5 =
      (scP\<lparr>entities := ents\<rparr>,
       [FailedToExecute, FrameNo 5, Time (of_int 5 / of_int (fps sc5)),
        InstructionText instruction, BlankLine], Some e)"
    using assms(2) f5 by (intro run_instructions_fails_at [OF _ assms(5) assms(6)]) simp
  have fail: "replay ex [5] sc5 =
      (scP\<lparr>entities := ents\<rparr>,
       [FailedToExecute, FrameNo 5, Time (5 / of_int (fps sc)),
        InstructionText instruction, BlankLine], Some e)"
    using run assms(4) s5 f5 by simp
  have first: "set_frame_no ex 0 sc = (sc, [], None)"
    using assms(1) by (simp add: set_frame_no_def)
  have loop: "get_frames_loop ex cap status 10 [0 + 1 .. 10] ([] @ [cap sc]) sc =
     (scP\<lparr>entities := ents\<rparr>\<lparr>current_frame := 5\<rparr>,
      concat (map (\<lambda>i. if status \<and> (i mod 10 = 0 \<or> i = 10)
                        then [GettingFrame i 10] else []) [0 + 1 .. 5 + 1]) @
        [FailedToExecute, FrameNo 5, Time (5 / of_int (fps sc)),
         InstructionText instruction, BlankLine],
      Inl e)"
    using assms(1,3) fail by (intro get_frames_loop_fails [where ?s1.0 = sc5 and ?out1.0 = out5]) simp_all
  have quiet: "concat (map (\<lambda>i. if status \<and> (i mod 10 = 0 \<or> i = 10)
                        then [GettingFrame i 10] else []) [0 + 1 .. 5 + 1]) = []"
    by (simp add: upto.simps)
  have range: "[0 .. 10] = 0 # [0 + 1 .. 10]"
    by (simp add: upto.simps)
  show ?thesis
    unfolding get_frames_def using loop
    by (simp only: option.case range get_frames_loop.simps first quiet Let_def) auto
qed

lemma unregistered_scene_eq:
  "unregistered_scene =
     \<lparr>width = 640, height = 480, resolution = 1, entities = [(KStr ''a'', (0, 0, 0))],
      entities_init = [(KStr ''a'', (0, 0, 0))], background = [0, 0, 0],
      origin = [320, 240], script = [(0, ['''']), (5, [slide_b_text])], current_frame = 0,
      fps = 30\<rparr>"
  by (simp add: unregistered_scene_def Scene_init_def add_instruction_def add_entities_def
      dict_update_def)

theorem get_frames_fail_fast_witness:
  "current_frame unregistered_scene = 0 \<and> fps unregistered_scene \<noteq> 0 \<and>
   replay exec_slide_b [0 .. 4] unregistered_scene = (unregistered_scene, [], None) \<and>
   map_of (script unregistered_scene) 5 = Some ([] @ slide_b_text # []) \<and>
   run_instructions exec_slide_b 5 [] unregistered_scene = (unregistered_scene, [], None) \<and>
   exec_slide_b slide_b_text (entities unregistered_scene) =
     (entities unregistered_scene, Some KeyError) \<and>
   get_frames exec_slide_b entities 0 (Some 10) True unregistered_scene =
     (unregistered_scene\<lparr>current_frame := 5\<rparr>,
      [GettingFrame 0 10, FailedToExecute, FrameNo 5, Time (1 / 6),
       InstructionText slide_b_text, BlankLine],
      Inl KeyError)"
proof -
  have h1: "current_frame unregistered_scene = 0" and h2: "fps unregistered_scene \<noteq> 0"
    by (simp_all add: unregistered_scene_eq)
  have h3: "replay exec_slide_b [0 .. 4] unregistered_scene = (unregistered_scene, [], None)"
    by (simp add: unregistered_scene_eq upto.simps exec_slide_b_def exec_move_def)
  have h4: "map_of (script unregistered_scene) 5 = Some ([] @ slide_b_text # [])"
    by (simp add: unregistered_scene_eq)
  have h5: "run_instructions exec_slide_b 5 [] unregistered_scene = (unregistered_scene, [], None)"
    by simp
  have h6: "exec_slide_b slide_b_text (entities unregistered_scene) =
     (entities unregistered_scene, Some KeyError)"
    by (simp add: unregistered_scene_eq exec_slide_b_def exec_move_def slide_b_text_def)
  have "fps unregistered_scene = 30" by (simp add: unregistered_scene_eq)
  then show ?thesis
    using get_frames_fail_fast [OF h1 h2 h3 h4 h5 h6, of entities True] h1 h2 h3 h4 h5 h6
    by simp
qed

section \<open>Properties of the distance to a polygon\<close>

lemma edge_step_crossing:
  "edge_step a n p edge (m, f) =
     (case crossing a n p edge of
        None \<Rightarrow> (m, f)
      | Some d \<Rightarrow>
          if d < 0 then (m, - 1)
          else if (case m of None \<Rightarrow> True | Some x \<Rightarrow> d < x) then (Some d, f) else (m, f))"
  by (cases edge) (auto simp: edge_step_def crossing_def Let_def)

lemma fold_edge_step_inside:
  "snd (fold (edge_step a n p) es (m, f)) =
     (if list_ex (\<lambda>d. d < 0) (List.map_filter (crossing a n p) es) then - 1 else f)"
proof (induction es arbitrary: m f)
  case Nil
  then show ?case by (simp add: List.map_filter_simps)
next
  case (Cons e es)
  show ?case
    by (cases "crossing a n p e")
       (auto simp: edge_step_crossing List.map_filter_simps Cons.IH)
qed

lemma Min_insert_insert:
  fixes x :: real
  assumes "finite S"
  shows "Min (insert x (insert d S)) = Min (insert (min x d) S)"
  using assms by (cases "S = {}") (simp_all add: min.assoc)

lemma fold_edge_step_min_Some:
  "fst (fold (edge_step a n p) es (Some x, f)) =
     Some (Min (insert x (set (filter (\<lambda>d. 0 \<le> d) (List.map_filter (crossing a n p) es)))))"
proof (induction es arbitrary: x f)
  case Nil
  then show ?case by (simp add: List.map_filter_simps)
next
  case (Cons e es)
  show ?case
  proof (cases "crossing a n p e")
    case None
    then show ?thesis by (simp add: edge_step_crossing List.map_filter_simps Cons.IH)
  next
    case (Some d)
    let ?S = "set (filter (\<lambda>d. 0 \<le> d) (List.map_filter (crossing a n p) es))"
    have mm: "Min (insert x (insert d ?S)) = Min (insert (min x d) ?S)"
      by (rule Min_insert_insert) simp
    show ?thesis
    proof (cases "d < 0")
      case True
      with Some show ?thesis by (simp add: edge_step_crossing List.map_filter_simps Cons.IH)
    next
      case False
      show ?thesis
      proof (cases "d < x")
        case True
        then have "min x d = d" by simp
        with Some False True mm show ?thesis
          by (simp add: edge_step_crossing List.map_filter_simps Cons.IH)
      next
        case nlt: False
        then have "min x d = x" by simp
        with Some False nlt mm show ?thesis
          by (simp add: edge_step_crossing List.map_filter_simps Cons.IH)
      qed
    qed
  qed
qed

lemma fold_edge_step_min_None:
  "fst (fold (edge_step a n p) es (None, f)) =
     (if filter (\<lambda>d. 0 \<le> d) (List.map_filter (crossing a n p) es) = [] then None
      else Some (Min (set (filter (\<lambda>d. 0 \<le> d) (List.map_filter (crossing a n p) es)))))"
proof (induction es arbitrary: f)
  case Nil
  then show ?case by (simp add: List.map_filter_simps)
next
  case (Cons e es)
  show ?case
  proof (cases "crossing a n p e")
    case None
    then show ?thesis by (simp add: edge_step_crossing List.map_filter_simps Cons.IH)
  next
    case (Some d)
    show ?thesis
    proof (cases "d < 0")
      case True
      with Some show ?thesis by (simp add: edge_step_crossing List.map_filter_simps Cons.IH)
    next
      case False
      with Some show ?thesis
        by (simp add: edge_step_crossing List.map_filter_simps fold_edge_step_min_Some)
    qed
  qed
qed

text \<open>
  C4, as stated, fails: from the point \<open>(2, 0)\<close> heading away from the unit square,
  no crossing has a forward distance that is not negative, and the result is minus
  infinity, not plus infinity.
\<close>

theorem dist_to_poly_backward_only:
  "forward_dists unit_square (2, 0, 0) (1, 0, 0) = [] \<and>
   dist_to_poly unit_square (2, 0, 0) (1, 0, 0) = NegInf \<and>
   dist_to_poly unit_square (2, 0, 0) (1, 0, 0) \<noteq> PosInf"
  by (simp add: forward_dists_def crossing_dists_def crossing_def dist_to_poly_def
      edge_step_def unit_square_def edges_def get_points_def dot_def vsub_def Let_def
      List.map_filter_def)

text \<open>
  C4, amended: an edge crosses when its end points are not strictly on the same side of
  the line of the ray and not both on it. When some crossing has a forward distance that
  is not negative, the result is the least such distance, negated when some crossing has
  a negative forward distance; when none has, the result is minus infinity if some
  crossing has a negative forward distance and plus infinity if there is no crossing.
\<close>

theorem dist_to_poly_contract:
  "dist_to_poly poly point dir =
     (if forward_dists poly point dir = []
      then (if backward_crossing poly point dir then NegInf else PosInf)
      else Fin ((if backward_crossing poly point dir then - 1 else 1) *
                Min (set (forward_dists poly point dir))))"
proof -
  define a where "a = (case dir of (x, y, z) \<Rightarrow>
                 (x / sqrt (dot dir dir), y / sqrt (dot dir dir), z / sqrt (dot dir dir)))"
  define n where "n = (case a of (a0, a1, a2) \<Rightarrow> (- a1, a0, 0 :: real))"
  define es where "es = edges (get_points poly)"
  obtain m f where r: "fold (edge_step a n point) es (None, 1) = (m, f)"
    by (cases "fold (edge_step a n point) es (None, 1)") auto
  have f: "f = (if backward_crossing poly point dir then - 1 else 1)"
    using fold_edge_step_inside [of a n point es None 1] r
    by (simp add: backward_crossing_def crossing_dists_def a_def n_def es_def Let_def)
  have m: "m = (if forward_dists poly point dir = [] then None
                else Some (Min (set (forward_dists poly point dir))))"
    using fold_edge_step_min_None [of a n point es 1] r
    by (simp add: forward_dists_def crossing_dists_def a_def n_def es_def Let_def)
  have "dist_to_poly poly point dir =
          (case (m, f) of (None, i) \<Rightarrow> if i < 0 then NegInf else PosInf
                        | (Some d, i) \<Rightarrow> Fin (i * d))"
    using r by (simp add: dist_to_poly_def a_def n_def es_def Let_def)
  then show ?thesis
    by (simp add: m f)
qed

theorem dist_to_poly_contract_witness:
  "forward_dists unit_square (2, 0, 0) (- 1, 0, 0) = [5/2, 3/2] \<and>
   \<not> backward_crossing unit_square (2, 0, 0) (- 1, 0, 0) \<and>
   dist_to_poly unit_square (2, 0, 0) (- 1, 0, 0) = Fin (3/2) \<and>
   forward_dists unit_square (0, 0, 0) (1, 0, 0) = [1/2] \<and>
   backward_crossing unit_square (0, 0, 0) (1, 0, 0) \<and>
   dist_to_poly unit_square (0, 0, 0) (1, 0, 0) = Fin (- 1/2)"
proof -
  have c1: "crossing_dists unit_square (2, 0, 0) (- 1, 0, 0) = [5/2, 3/2]"
    by (simp add: crossing_dists_def crossing_def unit_square_def edges_def get_points_def
        dot_def vsub_def Let_def List.map_filter_simps)
  have c2: "crossing_dists unit_square (0, 0, 0) (1, 0, 0) = [- 1/2, 1/2]"
    by (simp add: crossing_dists_def crossing_def unit_square_def edges_def get_points_def
        dot_def vsub_def Let_def List.map_filter_simps)
  have f1: "forward_dists unit_square (2, 0, 0) (- 1, 0, 0) = [5/2, 3/2]"
    and b1: "\<not> backward_crossing unit_square (2, 0, 0) (- 1, 0, 0)"
    by (simp_all add: forward_dists_def backward_crossing_def c1)
  have f2: "forward_dists unit_square (0, 0, 0) (1, 0, 0) = [1/2]"
    and b2: "backward_crossing unit_square (0, 0, 0) (1, 0, 0)"
    by (simp_all add: forward_dists_def backward_crossing_def c2)
  have d1: "dist_to_poly unit_square (2, 0, 0) (- 1, 0, 0) = Fin (3/2)"
    using dist_to_poly_contract [of unit_square "(2, 0, 0)" "(- 1, 0, 0)"]
    by (simp add: f1 b1)
  have d2: "dist_to_poly unit_square (0, 0, 0) (1, 0, 0) = Fin (- 1/2)"
    using dist_to_poly_contract [of unit_square "(0, 0, 0)" "(1, 0, 0)"]
    by (simp add: f2 b2)
  show ?thesis
    using f1 b1 d1 f2 b2 d2 by simp
qed

section \<open>Properties of the flatness search\<close>

lemma argmin_rect: "argmin_first (map snd [(0, 0), (10, 0), (10, 1), (0, 1)]) = 0"
  by (simp add: argmin_first_def)

lemma argmax_rect: "argmax_first (map snd [(0, 0), (10, 0), (10, 1), (0, 1)]) = 2"
  by (simp add: argmax_first_def)

text \<open>
  C3 on the code: on the rectangle \<open>[[0,0],[10,0],[10,1],[0,1]]\<close> the point with the
  least \<open>y\<close> is the first row, so the first pass of the \<open>for\<close> loop takes the branch
  for \<open>point = p0\<close> and then reads \<open>p0_dir\<close>, which is still unbound:
  \<open>calc_flatness\<close> raises UnboundLocalError and returns no flatness.
\<close>

theorem calc_flatness_rectangle_raises:
  "calc_flatness [(0, 0), (10, 0), (10, 1), (0, 1)] False = Some (Inl UnboundLocalError)"
  unfolding calc_flatness_def argmin_rect argmax_rect Let_def
  by (subst rolling.simps) (simp add: roll_step_def assess_def)

lemma sqrt_169: "sqrt 169 = 13"
  by (rule real_sqrt_unique) simp_all

lemma sqrt_225: "sqrt 225 = 15"
  by (rule real_sqrt_unique) simp_all

lemma sqrt_16: "sqrt 16 = 4"
  by (rule real_sqrt_unique) simp_all


lemma argmin_three_points: "argmin_first (map snd three_points) = 1"
  by (simp add: argmin_first_def three_points_def)

lemma argmax_three_points: "argmax_first (map snd three_points) = 2"
  by (simp add: argmax_first_def three_points_def)

lemma stuck_step:
  assumes "stuck fr"
  shows "\<exists>fr'. roll_step three_points fr = Inr fr' \<and> stuck fr'"
proof -
  from assms obtain d0 d1 where d: "p0_dir fr = Some d0" "p1_dir fr = Some d1"
    by (auto simp: stuck_def)
  from assms have f: "p0 fr = (12, 5)" "p1 fr = (12, 9)" "p0_slope fr = (0, 0)" "p1_slope fr = (0, 0)"
    by (auto simp: stuck_def)
  show ?thesis
    by (simp add: roll_step_def three_points_def assess_def Let_def d f dot2_def neg2_def stuck_def argmax_first_def)
qed


lemma stuck_forever:
  assumes "stuck fr"
  shows "rolling three_points 1 2 fr = None"
proof (rule ccontr)
  assume "rolling three_points 1 2 fr \<noteq> None"
  then obtain y where y: "rolling three_points 1 2 fr = Some y" by auto
  have "three_points = three_points \<longrightarrow> (1::nat) = 1 \<longrightarrow> (2::nat) = 2 \<longrightarrow> \<not> stuck fr"
  proof (rule rolling.raw_induct
      [where P = "\<lambda>points n0 n1 fr y. points = three_points \<longrightarrow> n0 = 1 \<longrightarrow> n1 = 2 \<longrightarrow> \<not> stuck fr",
       OF _ y])
    fix loop :: "vec2 list \<Rightarrow> nat \<Rightarrow> nat \<Rightarrow> frame \<Rightarrow> (error + frame) option"
      and points n0 n1 fr y
    assume IH: "\<And>ps m0 m1 g z. loop ps m0 m1 g = Some z \<Longrightarrow>
                  ps = three_points \<longrightarrow> m0 = 1 \<longrightarrow> m1 = 2 \<longrightarrow> \<not> stuck g"
      and eq: "(if p0 fr \<noteq> points ! n1 \<and> p1 fr \<noteq> points ! n0
                then case roll_step points fr of Inl e \<Rightarrow> Some (Inl e)
                     | Inr fr' \<Rightarrow> loop points n0 n1 fr'
                else Some (Inr fr)) = Some y"
    show "points = three_points \<longrightarrow> n0 = 1 \<longrightarrow> n1 = 2 \<longrightarrow> \<not> stuck fr"
    proof (intro impI notI)
      assume p: "points = three_points" and n: "n0 = 1" "n1 = 2" and st: "stuck fr"
      from st obtain fr' where step: "roll_step three_points fr = Inr fr'" and st': "stuck fr'"
        using stuck_step by blast
      from st have cond: "p0 fr \<noteq> three_points ! 2 \<and> p1 fr \<noteq> three_points ! 1"
        by (simp add: stuck_def three_points_def)
      from eq cond step p n have "loop three_points 1 2 fr' = Some y"
        by simp
      from IH [OF this] st' show False by simp
    qed
  qed
  with assms show False by simp
qed

lemma three_points_step1:
  "roll_step three_points
     \<lparr>p0 = (0, 0), p1 = (12, 9), p0_slope = (1, 0), p1_slope = neg2 (1, 0),
      flatness_step_vals = [], slope_vals = [], p0_vals = [], p1_vals = [], p0_dirs = [],
      p0_dot_prods = [], p1_dirs = [], p1_dot_prods = [], p0_dir = None, p1_dir = None\<rparr> =
   Inr \<lparr>p0 = (12, 5), p1 = (12, 9), p0_slope = (12/13, 5/13), p1_slope = (- (12/13), - (5/13)),
      flatness_step_vals = [48/13], slope_vals = [(12/13, 5/13)], p0_vals = [(12, 5)],
      p1_vals = [(12, 9)], p0_dirs = [(12/13, 5/13), (0, 0), (4/5, 3/5)],
      p0_dot_prods = [12/13, 12/13, 4/5], p1_dirs = [(0, - 1), (- (4/5), - (3/5)), (0, 0)],
      p1_dot_prods = [0, 4/5, 4/5], p0_dir = Some (4/5, 3/5), p1_dir = Some (- (4/5), - (3/5))\<rparr>"
  by (simp add: roll_step_def three_points_def assess_def Let_def dot2_def neg2_def argmax_first_def
      sqrt_169 sqrt_225 sqrt_16)


lemma three_points_step2:
  "\<exists>fr'. roll_step three_points
     \<lparr>p0 = (12, 5), p1 = (12, 9), p0_slope = (12/13, 5/13), p1_slope = (- (12/13), - (5/13)),
      flatness_step_vals = [48/13], slope_vals = [(12/13, 5/13)], p0_vals = [(12, 5)],
      p1_vals = [(12, 9)], p0_dirs = [(12/13, 5/13), (0, 0), (4/5, 3/5)],
      p0_dot_prods = [12/13, 12/13, 4/5], p1_dirs = [(0, - 1), (- (4/5), - (3/5)), (0, 0)],
      p1_dot_prods = [0, 4/5, 4/5], p0_dir = Some (4/5, 3/5), p1_dir = Some (- (4/5), - (3/5))\<rparr>
     = Inr fr' \<and> stuck fr'"
  by (simp add: roll_step_def three_points_def assess_def Let_def dot2_def neg2_def argmax_first_def
      sqrt_169 sqrt_225 sqrt_16 stuck_def)

text \<open>
  C10 on the code: on the three points \<open>[[12,5],[0,0],[12,9]]\<close> the \<open>while\<close> loop
  never ends. The first pass rolls \<open>p0\<close> onto \<open>(12, 5)\<close>. In the second pass the
  row of \<open>p0\<close> itself gets the dot product of the stale \<open>p0_dir\<close>, which ties with
  the maximum of \<open>p1\<close>, so \<open>p0\<close> rolls onto its own row with the zero slope stored
  for it; from then on every dot product is zero and \<open>p0\<close> stays there, and neither
  anchor reaches the other's original point.
\<close>

theorem calc_flatness_never_returns:
  "calc_flatness three_points False = None"
proof -
  let ?fr0 = "\<lparr>p0 = (0, 0), p1 = (12, 9), p0_slope = (1, 0), p1_slope = neg2 (1, 0),
      flatness_step_vals = [], slope_vals = [], p0_vals = [], p1_vals = [], p0_dirs = [],
      p0_dot_prods = [], p1_dirs = [], p1_dot_prods = [], p0_dir = None, p1_dir = None\<rparr>"
  let ?fr1 = "\<lparr>p0 = (12, 5), p1 = (12, 9), p0_slope = (12/13, 5/13), p1_slope = (- (12/13), - (5/13)),
      flatness_step_vals = [48/13], slope_vals = [(12/13, 5/13)], p0_vals = [(12, 5)],
      p1_vals = [(12, 9)], p0_dirs = [(12/13, 5/13), (0, 0), (4/5, 3/5)],
      p0_dot_prods = [12/13, 12/13, 4/5], p1_dirs = [(0, - 1), (- (4/5), - (3/5)), (0, 0)],
      p1_dot_prods = [0, 4/5, 4/5], p0_dir = Some (4/5, 3/5), p1_dir = Some (- (4/5), - (3/5))\<rparr>"
  obtain fr2 where step2: "roll_step three_points ?fr1 = Inr fr2" and st: "stuck fr2"
    using three_points_step2 by blast
  have "rolling three_points 1 2 ?fr0 = rolling three_points 1 2 ?fr1"
    by (subst rolling.simps) (simp add: three_points_step1, simp add: three_points_def)
  also have "\<dots> = rolling three_points 1 2 fr2"
    by (subst rolling.simps) (simp add: step2, simp add: three_points_def)
  also have "\<dots> = None"
    using st by (rule stuck_forever)
  finally have loop: "rolling three_points 1 2 ?fr0 = None" .
  have pts: "three_points \<noteq> []" "three_points ! 1 = (0, 0)" "three_points ! 2 = (12, 9)"
    by (simp_all add: three_points_def)
  show ?thesis
    using loop pts by (simp add: calc_flatness_def argmin_three_points argmax_three_points Let_def)
qed

section \<open>Properties of jagged contours\<close>

text \<open>
  C9: for every contour, with its jaggedness, point count and seed, and whatever numpy's
  generator does, \<open>jagged_points\<close> returns the same points (and leaves the same
  generator state, or raises the same exception) from any two states of the global
  generator: it sets the seed before it draws, so an evaluation does not depend on what
  was drawn before it, and evaluating twice gives the same sequence of points.
\<close>

theorem jagged_points_same_seed:
  "jagged_points R self g1 = jagged_points R self g2"
  by (simp add: jagged_points_def)

text \<open>A run on the counting generator: the result does not depend on the state \<open>g\<close>.\<close>

lemma jagged_points_line_run:
  "jagged_points counter_random
     (LineContour2D (0, 0) (4, 0) \<lparr>jaggedness = 1, n_points = 3, seed = 3\<rparr>) g =
   Inr ([(0, 0), (2, 1), (4, 0)], 8)"
  by (simp add: jagged_points_def spaces_def counter_random_def cumsum_def Let_def
      numeral_2_eq_2 numeral_3_eq_3)

theorem jagged_points_same_seed_witness:
  "jagged_points counter_random
     (LineContour2D (0, 0) (4, 0) \<lparr>jaggedness = 1, n_points = 3, seed = 3\<rparr>) 0 =
   Inr ([(0, 0), (2, 1), (4, 0)], 8) \<and>
   jagged_points counter_random
     (LineContour2D (0, 0) (4, 0) \<lparr>jaggedness = 1, n_points = 3, seed = 3\<rparr>) 17 =
   Inr ([(0, 0), (2, 1), (4, 0)], 8)"
  using jagged_points_same_seed
    [of counter_random
       "LineContour2D (0, 0) (4, 0) \<lparr>jaggedness = 1, n_points = 3, seed = 3\<rparr>" 0 17]
    jagged_points_line_run [of 0]
  by simp

section \<open>Properties of the interpolation profiles\<close>

lemma double_round_binade:
  assumes "2 ^ k \<le> \<bar>x\<bar>" and "\<bar>x\<bar> < 2 ^ (k + 1)"
  shows "double_round x =
           of_int (round_half_even (x / 2 powr (real k - 52))) * 2 powr (real k - 52)"
proof -
  have pos: "\<bar>x\<bar> > 0" using assms(1) by (smt (verit) zero_less_power)
  have "\<lfloor>log 2 \<bar>x\<bar>\<rfloor> = int k"
    using assms pos by (subst floor_log_eq_powr_iff) (simp_all add: powr_realpow powr_add)
  moreover have "x \<noteq> 0" using pos by auto
  ultimately show ?thesis by (simp add: double_round_def)
qed

lemma dr_1: "double_round 1 = 1"
  using double_round_binade [of 0 1]
  by (simp add: round_half_even_def powr_minus powr_numeral)

lemma dr_1e16: "double_round 10000000000000000 = 10000000000000000"
  using double_round_binade [of 53 10000000000000000]
  by (simp add: round_half_even_def)

lemma dr_m1e16: "double_round (- 10000000000000000) = - 10000000000000000"
  using double_round_binade [of 53 "- 10000000000000000"]
  by (simp add: round_half_even_def)

lemma dr_diff: "double_round (- 9999999999999999) = - 10000000000000000"
  using double_round_binade [of 53 "- 9999999999999999"]
  by (simp add: round_half_even_def)


text \<open>
  C2, as stated, fails: in binary64 arithmetic \<open>span(1e16, 1.0, 2, "linear")\<close> has
  the rows \<open>1e16\<close> and \<open>0\<close>. The difference \<open>end - start\<close> is
  \<open>-9999999999999999\<close>, which rounds to \<open>-1e16\<close>, so the last row,
  \<open>start + 1.0 * (end - start)\<close>, is 0 and not \<open>end\<close>.
\<close>

theorem span_last_row_rounds:
  "span double_round [10000000000000000] [1] 2 ''linear'' = Inr [[10000000000000000], [0]] \<and>
   last [[10000000000000000], [0 :: real]] \<noteq> [1]"
proof -
  have d0: "double_round 0 = 0" by (simp add: double_round_def)
  have lin: "linspace double_round 0 1 2 = [0, 1]"
    by (simp add: linspace_def d0 dr_1)
  show ?thesis
    by (simp add: span_def profile_shape_def lin Let_def d0 dr_1 dr_1e16 dr_m1e16 dr_diff)
qed

lemma linspace_exact:
  assumes "2 \<le> n"
  shows "length (linspace (\<lambda>x. x) a b n) = n"
    and "hd (linspace (\<lambda>x. x) a b n) = a"
    and "last (linspace (\<lambda>x. x) a b n) = b"
proof -
  from assms have n: "n \<noteq> 0" "n \<noteq> 1" "0 < n - 1" by simp_all
  then have up: "[0..<n - 1] = 0 # [1..<n - 1]" by (simp add: upt_conv_Cons)
  show "length (linspace (\<lambda>x. x) a b n) = n" using n by (simp add: linspace_def)
  show "hd (linspace (\<lambda>x. x) a b n) = a" using n up by (simp add: linspace_def)
  show "last (linspace (\<lambda>x. x) a b n) = b" using n by (simp add: linspace_def)
qed

lemma linspace_nonempty: "2 \<le> n \<Longrightarrow> linspace (\<lambda>x. x) a b n \<noteq> []"
  using linspace_exact(1) [of n a b] by auto

lemma profile_shape_exact:
  assumes "2 \<le> n"
  shows "length (profile_shape (\<lambda>x. x) profile n) = n"
    and "last (profile_shape (\<lambda>x. x) profile n) - hd (profile_shape (\<lambda>x. x) profile n) \<noteq> 0"
proof -
  show "length (profile_shape (\<lambda>x. x) profile n) = n"
    using assms by (simp add: profile_shape_def linspace_exact(1))
  have e: "exp (5 :: real) \<noteq> exp (- 5)" by simp
  have "1 / (1 + exp (- 5 :: real)) \<noteq> 1 / (1 + exp 5)"
  proof
    assume "1 / (1 + exp (- 5 :: real)) = 1 / (1 + exp 5)"
    moreover have "1 + exp (- 5 :: real) > 0" "1 + exp (5 :: real) > 0"
      by (simp_all add: add_pos_pos)
    ultimately have "1 + exp (- 5 :: real) = 1 + exp 5"
      by (simp add: field_simps)
    with e show False by simp
  qed
  then show "last (profile_shape (\<lambda>x. x) profile n) - hd (profile_shape (\<lambda>x. x) profile n) \<noteq> 0"
    using assms
    by (simp add: profile_shape_def linspace_exact linspace_nonempty last_map hd_map)
qed

text \<open>
  C2, amended: in exact arithmetic, for \<open>start\<close> and \<open>end\<close> of the same shape, every
  profile and every \<open>n_elems > 1\<close>, \<open>span\<close> returns \<open>n_elems\<close> rows, the first
  equal to \<open>start\<close> and the last equal to \<open>end\<close>: the rescaled shape runs from
  exactly 0 to exactly 1.
\<close>

theorem span_endpoints_exact:
  assumes "length start = length end" and "1 < n_elems"
  shows "\<exists>rows. span (\<lambda>x. x) start end n_elems profile = Inr rows \<and>
           length rows = nat n_elems \<and> hd rows = start \<and> last rows = end"
proof -
  let ?s0 = "profile_shape (\<lambda>x. x) profile (nat n_elems)"
  let ?s1 = "map (\<lambda>s. s - hd ?s0) ?s0"
  let ?shape = "map (\<lambda>s. s * (1 / last ?s1)) ?s1"
  let ?F = "\<lambda>s. map (\<lambda>(a, b). a + s * (b - a)) (zip start end)"
  from assms(2) have n: "2 \<le> nat n_elems" by simp
  have len: "length ?s0 = nat n_elems" and diff: "last ?s0 - hd ?s0 \<noteq> 0"
    using profile_shape_exact [OF n] by simp_all
  from len n have ne: "?s0 \<noteq> []" by auto
  have l1: "last ?s1 = last ?s0 - hd ?s0" using ne by (simp add: last_map)
  have h1: "hd ?s1 = 0" using ne by (simp add: hd_map)
  have hs: "hd ?shape = 0" using ne h1 by (simp add: hd_map)
  have ls: "last ?shape = 1" using ne l1 diff by (simp add: last_map)
  have F0: "?F 0 = start"
    using assms(1) by (simp add: case_prod_unfold map_fst_zip)
  have F1: "?F 1 = end"
    using assms(1) by (simp add: case_prod_unfold map_snd_zip)
  have sp: "span (\<lambda>x. x) start end n_elems profile = Inr (map ?F ?shape)"
    using assms l1 diff by (simp add: span_def Let_def)
  have "hd (map ?F ?shape) = start" using ne hs F0 by (simp add: hd_map)
  moreover have "last (map ?F ?shape) = end" using ne ls F1 by (simp add: last_map)
  moreover have "length (map ?F ?shape) = nat n_elems" using len by simp
  ultimately show ?thesis using sp by blast
qed

theorem span_endpoints_exact_witness:
  "length [0 :: real, 2] = length [1 :: real, 5] \<and> (1 :: int) < 3 \<and>
   (\<exists>rows. span (\<lambda>x. x) [0, 2] [1, 5] 3 ''sigmoid'' = Inr rows \<and>
           length rows = nat 3 \<and> hd rows = [0, 2] \<and> last rows = [1, 5])"
  using span_endpoints_exact [of "[0, 2]" "[1, 5]" 3 "''sigmoid''"] by simp

end
